theory Spec2Isabelle
  imports Complex_Main
begin

section \<open>JavaScript values\<close>

text \<open>
  The renderer and the route handlers pass most of their data through untouched: a
  card's title, a request's sentence, a prediction. Such data is a JavaScript value.
  Where the code inspects a value (compares it with a string literal, calls a string
  method on it, reads a field of it) the model gives it the type the code uses it at,
  and an optional field that may be absent is an \<open>option\<close>: \<open>None\<close> is
  JavaScript's \<open>undefined\<close>.

  A number is a double for JavaScript. The code only ever tests a number for
  truthiness, so the model keeps what that test reads: not-a-number, the two
  infinities, and the finite values with one zero.
\<close>

datatype jsnum = NaN | PosInfinity | NegInfinity | Finite real

datatype jsval =
    JUndefined
  | JNull
  | JBool bool
  | JNum jsnum
  | JStr string
  | JArr "jsval list"
  | JObj "(string \<times> jsval) list"

text \<open>
  \<open>truthy v\<close> is the test an \<open>if (v)\<close> makes: \<open>undefined\<close>, \<open>null\<close>,
  \<open>false\<close>, zero, not-a-number and the empty string are falsy, every other value
  (every array and object too) is truthy.
\<close>

fun truthy :: "jsval \<Rightarrow> bool" where
  "truthy JUndefined = False"
| "truthy JNull = False"
| "truthy (JBool b) = b"
| "truthy (JNum NaN) = False"
| "truthy (JNum PosInfinity) = True"
| "truthy (JNum NegInfinity) = True"
| "truthy (JNum (Finite r)) = (r \<noteq> 0)"
| "truthy (JStr s) = (s \<noteq> [])"
| "truthy (JArr xs) = True"
| "truthy (JObj kvs) = True"

text \<open>\<open>v ?? d\<close>: the default replaces \<open>null\<close> and \<open>undefined\<close> only.\<close>

fun nullish :: "jsval \<Rightarrow> jsval \<Rightarrow> jsval" where
  "nullish JUndefined d = d"
| "nullish JNull d = d"
| "nullish v d = v"

text \<open>
  \<open>o.k\<close> on an object literal or a parsed JSON object whose keys are distinct: the
  value stored under the key, \<open>undefined\<close> when the key is absent.
\<close>

definition field :: "string \<Rightarrow> (string \<times> jsval) list \<Rightarrow> jsval" where
  "field k kvs = (case map_of kvs k of Some v \<Rightarrow> v | None \<Rightarrow> JUndefined)"

text \<open>
  Reading a result: \<open>get_prop k v\<close> is \<open>v.k\<close> for a key that no prototype defines,
  and \<open>elements v\<close> lists an array's elements (none for a value that is no array).
\<close>

fun get_prop :: "string \<Rightarrow> jsval \<Rightarrow> jsval" where
  "get_prop k (JObj kvs) = field k kvs"
| "get_prop k v = JUndefined"

fun elements :: "jsval \<Rightarrow> jsval list" where
  "elements (JArr xs) = xs"
| "elements v = []"

text \<open>The text a template literal puts in for a string that may be absent.\<close>

fun to_string :: "string option \<Rightarrow> string" where
  "to_string None = ''undefined''"
| "to_string (Some s) = s"

datatype error = Error (message: string)

section \<open>String.prototype.replace with a string pattern\<close>

text \<open>
  \<open>s.replace(pat, repl)\<close> with a string \<open>pat\<close> replaces the first occurrence
  of \<open>pat\<close> in \<open>s\<close>, and leaves \<open>s\<close> as it is when there is none.
  \<open>split_first pat s\<close> finds that occurrence and returns the text before
  it and the text after it. The replacement text is not taken literally: \<open>get_substitution\<close>
  expands \<open>$$\<close> to a dollar sign, \<open>$&\<close> to the matched text, \<open>$`\<close> to the text
  before the match and \<open>$'\<close> to the text after it. A string pattern has no capture
  groups, so \<open>$1\<close> and \<open>$<name>\<close> stay as written.

  Strings are lists of bytes here and sequences of UTF-16 code units in JavaScript. The
  pattern and the four escapes are ASCII, which no encoding of another character
  contains, so the search finds the same occurrence in both.
\<close>

fun split_first :: "string \<Rightarrow> string \<Rightarrow> (string \<times> string) option" where
  "split_first pat [] = (if pat = [] then Some ([], []) else None)"
| "split_first pat (c # cs) =
     (if take (length pat) (c # cs) = pat then Some ([], drop (length pat) (c # cs))
      else (case split_first pat cs of
              None \<Rightarrow> None
            | Some (preceding, following) \<Rightarrow> Some (c # preceding, following)))"

fun get_substitution :: "string \<Rightarrow> string \<Rightarrow> string \<Rightarrow> string \<Rightarrow> string" where
  "get_substitution matched preceding following [] = []"
| "get_substitution matched preceding following [c] = [c]"
| "get_substitution matched preceding following (c # d # t) =
     (if c = CHR ''$'' \<and> d = CHR ''$'' then
        CHR ''$'' # get_substitution matched preceding following t
      else if c = CHR ''$'' \<and> d = CHR 0x60 then
        preceding @ get_substitution matched preceding following t
      else if c = CHR ''$'' \<and> d = CHR ''&'' then
        matched @ get_substitution matched preceding following t
      else if c = CHR ''$'' \<and> d = CHR 0x27 then
        following @ get_substitution matched preceding following t
      else c # get_substitution matched preceding following (d # t))"

definition replace :: "string \<Rightarrow> string \<Rightarrow> string \<Rightarrow> string" where
  "replace s pat repl =
     (case split_first pat s of
        None \<Rightarrow> s
      | Some (preceding, following) \<Rightarrow>
          preceding @ get_substitution pat preceding following repl @ following)"

section \<open>The carousel content type\<close>

text \<open>
  The content type's schema makes \<open>data.items\<close> a required array of cards. A card
  may come without \<open>actions\<close> (the code reads \<open>card.actions || []\<close>) and
  without \<open>image\<close>; the strings the code inspects (\<open>a.action\<close>, \<open>a.url\<close>,
  \<open>card.image\<close>, \<open>data.BOT_URL\<close>) may be absent. Every other field is copied
  into the payload as it is. A field is named after the variable the code reads it from.
\<close>

record action =
  a_action :: "string option"
  a_title :: jsval
  a_text :: jsval
  a_url :: "string option"
  a_payload :: jsval

record card =
  card_title :: jsval
  card_image :: "string option"
  card_subtitle :: jsval
  card_actions :: "action list option"

record data =
  data_typing :: jsval
  data_collectFeedback :: jsval
  data_BOT_URL :: "string option"
  data_items :: "card list"

text \<open>
  \<open>xs.map(f)\<close> with a callback that may throw: the callback runs on the elements in
  order, and the first exception ends the whole call.
\<close>

fun map_throw :: "('a \<Rightarrow> error + 'b) \<Rightarrow> 'a list \<Rightarrow> error + 'b list" where
  "map_throw f [] = Inr []"
| "map_throw f (x # xs) =
     (case f x of
        Inl e \<Rightarrow> Inl e
      | Inr y \<Rightarrow> (case map_throw f xs of Inl e \<Rightarrow> Inl e | Inr ys \<Rightarrow> Inr (y # ys)))"

text \<open>
  The callback of the inner \<open>map\<close>: one button per action. \<open>a.url && a.url.replace(...)\<close>
  is \<open>a.url\<close> itself when that is absent or empty.
\<close>

definition render_button :: "data \<Rightarrow> action \<Rightarrow> error + jsval" where
  "render_button d a =
     (if a_action a = Some ''Say something'' then
        Inr (JObj [(''type'', JStr ''say_something''),
                   (''title'', a_title a),
                   (''text'', a_text a)])
      else if a_action a = Some ''Open URL'' then
        Inr (JObj [(''type'', JStr ''open_url''),
                   (''title'', a_title a),
                   (''url'', (case a_url a of
                                None \<Rightarrow> JUndefined
                              | Some u \<Rightarrow>
                                  if u = [] then JStr u
                                  else JStr (replace u ''BOT_URL'' (to_string (data_BOT_URL d)))))])
      else if a_action a = Some ''Postback'' then
        Inr (JObj [(''type'', JStr ''postback''),
                   (''title'', a_title a),
                   (''payload'', a_payload a)])
      else
        Inl (Error (''Webchat carousel does not support '' @ [CHR 0x22] @ to_string (a_action a)
                      @ [CHR 0x22] @ '' action-buttons at the moment'')))"

text \<open>The callback of the outer \<open>map\<close>: one element per card.\<close>

definition render_card :: "data \<Rightarrow> card \<Rightarrow> error + jsval" where
  "render_card d c =
     (case map_throw (render_button d) (case card_actions c of None \<Rightarrow> [] | Some as \<Rightarrow> as) of
        Inl e \<Rightarrow> Inl e
      | Inr buttons \<Rightarrow>
          Inr (JObj [(''title'', card_title c),
                     (''picture'', (case card_image c of
                                     None \<Rightarrow> JNull
                                   | Some i \<Rightarrow>
                                       if i = [] then JNull
                                       else JStr (to_string (data_BOT_URL d) @ i))),
                     (''subtitle'', card_subtitle c),
                     (''buttons'', JArr buttons)]))"

definition render :: "data \<Rightarrow> error + jsval list" where
  "render d =
     (let events = (if truthy (data_typing d)
                    then [JObj [(''type'', JStr ''typing''), (''value'', data_typing d)]]
                    else [])
      in case map_throw (render_card d) (data_items d) of
           Inl e \<Rightarrow> Inl e
         | Inr els \<Rightarrow>
             Inr (events @
                  [JObj [(''text'', JStr '' ''),
                         (''type'', JStr ''carousel''),
                         (''collectFeedback'', data_collectFeedback d),
                         (''elements'', JArr els)]]))"

text \<open>
  \<open>base.renderer\<close> comes from the module \<open>./_base\<close>; \<open>renderElement\<close> takes it
  as its first argument here. \<open>includes\<close> compares the channel with six strings, so
  a channel that is no string is never in the list.
\<close>

definition supported_channels :: "string list" where
  "supported_channels = [''web'', ''slack'', ''teams'', ''messenger'', ''telegram'', ''twilio'']"

definition renderElement ::
  "(data \<Rightarrow> string \<Rightarrow> error + jsval list) \<Rightarrow> data \<Rightarrow> jsval \<Rightarrow> error + jsval list" where
  "renderElement base_renderer d channel =
     (if channel \<in> set (map JStr supported_channels) then base_renderer d ''carousel''
      else render d)"

section \<open>The NLU server's routes\<close>

text \<open>
  The routes delegate to an engine, a model service, a training service and a
  training-session service, whose code is in other modules. The handlers take them as
  a record of functions. A service that keeps state reads and changes a world of type
  \<open>'w\<close> and either returns or throws; \<open>validate\<close> with its fixed schema,
  \<open>computeModelHash\<close> and \<open>makeModelId\<close> compute from their arguments alone.
  An awaited call is modelled by what the \<open>await\<close> yields: the value, or the
  exception of a rejected promise. \<open>train\<close> is called without \<open>await\<close>: the
  call either throws at once or returns a promise, and \<open>Promise r\<close> is a promise
  that settles as \<open>r\<close> (fulfilled for \<open>Inr\<close>, rejected for \<open>Inl\<close>) at some
  later time. \<open>getTrainingSession\<close> returns a value that the handler tests for
  truthiness.
\<close>

datatype 'a promise = Promise "error + 'a"

record model =
  languageCode :: jsval
  model_data :: jsval

record train_input =
  input_topics :: "(string \<times> jsval) list"
  input_entities :: jsval
  input_language :: jsval
  input_password :: jsval
  input_seed :: jsval

record request =
  req_modelId :: string
  req_body :: "(string \<times> jsval) list"

record response =
  res_status :: nat
  res_body :: jsval

record 'w services =
  validate :: "(string \<times> jsval) list \<Rightarrow> error + train_input"
  computeModelHash :: "jsval list \<Rightarrow> jsval \<Rightarrow> jsval \<Rightarrow> error + jsval"
  makeModelId :: "jsval \<Rightarrow> jsval \<Rightarrow> jsval \<Rightarrow> error + jsval"
  train :: "jsval \<Rightarrow> jsval \<Rightarrow> jsval list \<Rightarrow> jsval \<Rightarrow> jsval \<Rightarrow> 'w \<Rightarrow> (error + unit promise) \<times> 'w"
  getTrainingSession :: "string \<Rightarrow> 'w \<Rightarrow> (error + jsval) \<times> 'w"
  getModel :: "string \<Rightarrow> jsval \<Rightarrow> 'w \<Rightarrow> (error + model option) \<times> 'w"
  loadModel :: "model \<Rightarrow> 'w \<Rightarrow> (error + unit) \<times> 'w"
  predict :: "jsval \<Rightarrow> jsval list \<Rightarrow> jsval \<Rightarrow> 'w \<Rightarrow> (error + jsval) \<times> 'w"
  unloadModel :: "jsval \<Rightarrow> 'w \<Rightarrow> (error + unit) \<times> 'w"

text \<open>
  A handler runs on the world and on the list of the calls made to the stateful
  services so far, each with its arguments, in the order they were made.
\<close>

datatype call =
    GetTrainingSession string
  | GetModel string jsval
  | LoadModel model
  | Predict jsval "jsval list" jsval
  | UnloadModel jsval
  | Train jsval jsval "jsval list" jsval jsval

record 'w state =
  world :: 'w
  calls :: "call list"

text \<open>
  \<open>invoke\<close> calls a stateful service and records the call; \<open>compute\<close> is a
  call that leaves the world alone. \<open>and_then\<close> is the semicolon inside a
  \<open>try\<close> block: what follows runs
  only if what stands before did not throw. \<open>try_catch\<close> sends the \<open>catch\<close>
  block's response for an exception.
\<close>

definition invoke :: "call \<Rightarrow> ('w \<Rightarrow> (error + 'a) \<times> 'w) \<Rightarrow> 'w state \<Rightarrow> (error + 'a) \<times> 'w state" where
  "invoke c f s = (case f (world s) of (r, w) \<Rightarrow> (r, \<lparr>world = w, calls = calls s @ [c]\<rparr>))"

definition compute :: "error + 'a \<Rightarrow> 'w state \<Rightarrow> (error + 'a) \<times> 'w state" where
  "compute r s = (r, s)"

definition and_then ::
  "('s \<Rightarrow> (error + 'a) \<times> 's) \<Rightarrow> ('a \<Rightarrow> 's \<Rightarrow> (error + 'b) \<times> 's) \<Rightarrow> 's \<Rightarrow> (error + 'b) \<times> 's" where
  "and_then m k s = (case m s of (Inl e, s') \<Rightarrow> (Inl e, s') | (Inr a, s') \<Rightarrow> k a s')"

definition try_catch ::
  "('s \<Rightarrow> (error + response) \<times> 's) \<Rightarrow> (error \<Rightarrow> response) \<Rightarrow> 's \<Rightarrow> response \<times> 's" where
  "try_catch body handler s =
     (case body s of (Inl err, s') \<Rightarrow> (handler err, s') | (Inr res, s') \<Rightarrow> (res, s'))"

text \<open>\<open>res.status(code).send(body)\<close>; a plain \<open>res.send(body)\<close> has status 200.\<close>

definition send :: "nat \<Rightarrow> jsval \<Rightarrow> 's \<Rightarrow> (error + response) \<times> 's" where
  "send code b s = (Inr \<lparr>res_status = code, res_body = b\<rparr>, s)"

definition failure :: "nat \<Rightarrow> string \<Rightarrow> response" where
  "failure code msg =
     \<lparr>res_status = code, res_body = JObj [(''success'', JBool False), (''error'', JStr msg)]\<rparr>"

text \<open>
  \<open>_.flatMap(Object.values(topics))\<close>: the values of the topics object in property
  order, with every value that is an array replaced by its elements.
\<close>

fun flatMap :: "jsval list \<Rightarrow> jsval list" where
  "flatMap [] = []"
| "flatMap (JArr xs # vs) = xs @ flatMap vs"
| "flatMap (v # vs) = v # flatMap vs"

definition post_train :: "'w services \<Rightarrow> request \<Rightarrow> 'w state \<Rightarrow> response \<times> 'w state" where
  "post_train svc req =
     try_catch
       (and_then (compute (validate svc (req_body req))) (\<lambda>input.
          let intents = flatMap (map snd (input_topics input)) in
          and_then (compute (computeModelHash svc intents (input_entities input) (input_language input)))
            (\<lambda>modelHash.
          and_then (compute (makeModelId svc modelHash (input_language input) (input_seed input)))
            (\<lambda>modelId.
          and_then (invoke (Train modelId (input_password input) intents (input_entities input)
                              (input_language input))
                           (train svc modelId (input_password input) intents (input_entities input)
                              (input_language input)))
            (\<lambda>dropped.
          send 200 (JObj [(''success'', JBool True), (''modelId'', modelId)]))))))
       (\<lambda>err. failure 500 (message err))"

definition get_train :: "'w services \<Rightarrow> request \<Rightarrow> 'w state \<Rightarrow> response \<times> 'w state" where
  "get_train svc req =
     try_catch
       (let modelId = req_modelId req;
            password = field ''password'' (req_body req)
        in and_then (invoke (GetTrainingSession modelId) (getTrainingSession svc modelId))
             (\<lambda>session.
                if truthy session then
                  send 200 (JObj [(''success'', JBool True), (''session'', session)])
                else
                    and_then (invoke (GetModel modelId (nullish password (JStr [])))
                                     (getModel svc modelId (nullish password (JStr []))))
                      (\<lambda>model.
                         case model of
                           None \<Rightarrow>
                             send 404
                               (JObj [(''success'', JBool False),
                                      (''error'', JStr (''no model or training could be found for modelId: ''
                                                        @ modelId))])
                         | Some m \<Rightarrow>
                             send 200
                               (JObj [(''success'', JBool True),
                                      (''session'', JObj [(''status'', JStr ''done''),
                                                          (''progress'', JNum (Finite 1)),
                                                          (''language'', languageCode m)])]))))
       (\<lambda>err. failure 500 (message err))"

definition post_predict :: "'w services \<Rightarrow> request \<Rightarrow> 'w state \<Rightarrow> response \<times> 'w state" where
  "post_predict svc req =
     try_catch
       (let modelId = req_modelId req;
            sentence = field ''sentence'' (req_body req);
            password = field ''password'' (req_body req)
        in and_then (invoke (GetModel modelId (nullish password (JStr [])))
                            (getModel svc modelId (nullish password (JStr []))))
             (\<lambda>model.
                case model of
                  Some m \<Rightarrow>
                    and_then (invoke (LoadModel m) (loadModel svc m)) (\<lambda>_.
                    and_then (invoke (Predict sentence [] (languageCode m))
                                     (predict svc sentence [] (languageCode m)))
                      (\<lambda>prediction.
                    and_then (invoke (UnloadModel (languageCode m)) (unloadModel svc (languageCode m)))
                      (\<lambda>_.
                    send 200 (JObj [(''success'', JBool True), (''prediction'', prediction)]))))
                | None \<Rightarrow>
                    send 404
                      (JObj [(''success'', JBool False),
                             (''error'', JStr (''modelId '' @ modelId @ '' can'' @ [CHR 0x27]
                                               @ ''t be found''))])))
       (\<lambda>err. failure 404 (message err))"

text \<open>
  A small instance of the services, for running the handlers: the world lists the
  live training sessions and the persisted models by model id, the languages whose
  model the engine holds, and the model ids whose training was started. Its
  \<open>validate\<close> asks for a string \<open>language\<close> and its \<open>predict\<close> throws
  on a request without a sentence.
\<close>

record demo_world =
  sessions :: "(string \<times> jsval) list"
  models :: "(string \<times> model) list"
  loaded :: "jsval list"
  started :: "jsval list"

definition demo_validate :: "(string \<times> jsval) list \<Rightarrow> error + train_input" where
  "demo_validate b =
     (case field ''language'' b of
        JStr l \<Rightarrow>
          Inr \<lparr>input_topics = (case field ''topics'' b of JObj kvs \<Rightarrow> kvs | _ \<Rightarrow> []),
               input_entities = field ''entities'' b,
               input_language = JStr l,
               input_password = field ''password'' b,
               input_seed = field ''seed'' b\<rparr>
      | _ \<Rightarrow> Inl (Error ''language is required''))"

text \<open>
  Its hash is the triple of intents, entities and language, and its model id pairs the
  hash with the language. Its \<open>train\<close> notes the model id and returns a promise
  that will be fulfilled.
\<close>

definition demo_computeModelHash :: "jsval list \<Rightarrow> jsval \<Rightarrow> jsval \<Rightarrow> error + jsval" where
  "demo_computeModelHash intents entities language = Inr (JArr [JArr intents, entities, language])"

definition demo_makeModelId :: "jsval \<Rightarrow> jsval \<Rightarrow> jsval \<Rightarrow> error + jsval" where
  "demo_makeModelId modelHash language seed =
     Inr (JObj [(''hash'', modelHash), (''languageCode'', language)])"

definition demo_services :: "demo_world services" where
  "demo_services =
     \<lparr>validate = demo_validate,
      computeModelHash = demo_computeModelHash,
      makeModelId = demo_makeModelId,
      train = (\<lambda>modelId password intents entities language w.
                 (Inr (Promise (Inr ())), w\<lparr>started := started w @ [modelId]\<rparr>)),
      getTrainingSession = (\<lambda>modelId w. (Inr (field modelId (sessions w)), w)),
      getModel = (\<lambda>modelId password w. (Inr (map_of (models w) modelId), w)),
      loadModel = (\<lambda>m w. (Inr (), w\<lparr>loaded := languageCode m # loaded w\<rparr>)),
      predict = (\<lambda>sentence includedContexts language w.
                   (if truthy sentence
                    then Inr (JObj [(''language'', language), (''utterance'', sentence)])
                    else Inl (Error ''sentence is required''), w)),
      unloadModel = (\<lambda>language w. (Inr (), w\<lparr>loaded := removeAll language (loaded w)\<rparr>))\<rparr>"

definition demo_model :: model where
  "demo_model = \<lparr>languageCode = JStr ''en'', model_data = JNull\<rparr>"

definition demo_start :: "demo_world state" where
  "demo_start =
     \<lparr>world = \<lparr>sessions = [(''live'', JObj [(''status'', JStr ''training'')]), (''gone'', JNull)],
               models = [(''stored'', demo_model)],
               loaded = [],
               started = []\<rparr>,
      calls = []\<rparr>"

section \<open>The training button\<close>

text \<open>
  \<open>TrainNow\<close> keeps three flags. Its code runs in pieces, each to its next
  \<open>await\<close>: the effect on mount up to the call of \<open>api.isTraining\<close> and what
  follows the answer, the handler of a \<open>statusbar.event\<close>, \<open>trainNow\<close> up to
  the call of \<open>api.train\<close>, \<open>cancelTraining\<close> up to the call of
  \<open>api.cancelTraining\<close> and what follows its answer. Each piece is a step of the
  widget; the calls made to the API are listed in the state.
\<close>

datatype api_call = ApiIsTraining | ApiTrain | ApiCancelTraining

record widget =
  loading :: bool
  training :: bool
  cancelling :: bool
  api_calls :: "api_call list"

record trainSession =
  session_status :: string

record event =
  event_type :: string
  event_trainSession :: trainSession

definition initial :: widget where
  "initial = \<lparr>loading = True, training = False, cancelling = False, api_calls = []\<rparr>"

definition isDoneOrCancelled :: "event \<Rightarrow> bool" where
  "isDoneOrCancelled e =
     (session_status (event_trainSession e) = ''done''
      \<or> session_status (event_trainSession e) = ''canceled'')"

definition fetchIsTraining :: "widget \<Rightarrow> widget" where
  "fetchIsTraining w = w\<lparr>loading := True, api_calls := api_calls w @ [ApiIsTraining]\<rparr>"

definition fetchIsTraining_resumed :: "bool \<Rightarrow> widget \<Rightarrow> widget" where
  "fetchIsTraining_resumed isTraining w = w\<lparr>training := isTraining, loading := False\<rparr>"

definition on_statusbar_event :: "event \<Rightarrow> widget \<Rightarrow> widget" where
  "on_statusbar_event e w =
     (if event_type e = ''nlu'' \<and> isDoneOrCancelled e
      then w\<lparr>training := False, cancelling := False\<rparr>
      else w)"

definition trainNow :: "widget \<Rightarrow> widget" where
  "trainNow w = w\<lparr>training := True, api_calls := api_calls w @ [ApiTrain]\<rparr>"

definition cancelTraining :: "widget \<Rightarrow> widget" where
  "cancelTraining w = w\<lparr>api_calls := api_calls w @ [ApiCancelTraining]\<rparr>"

definition cancelTraining_resumed :: "widget \<Rightarrow> widget" where
  "cancelTraining_resumed w = w\<lparr>cancelling := True\<rparr>"

datatype widget_step =
    Mount
  | IsTrainingAnswered bool
  | StatusbarEvent event
  | TrainNow
  | CancelTraining
  | CancelTrainingAnswered

fun step :: "widget \<Rightarrow> widget_step \<Rightarrow> widget" where
  "step w Mount = fetchIsTraining w"
| "step w (IsTrainingAnswered b) = fetchIsTraining_resumed b w"
| "step w (StatusbarEvent e) = on_statusbar_event e w"
| "step w TrainNow = trainNow w"
| "step w CancelTraining = cancelTraining w"
| "step w CancelTrainingAnswered = cancelTraining_resumed w"

definition run :: "widget \<Rightarrow> widget_step list \<Rightarrow> widget" where
  "run w steps = foldl step w steps"

text \<open>
  What the component returns: one button. Its label is the key given to \<open>lang.tr\<close>.
  The button that starts a training is never disabled.
\<close>

datatype handler = OnTrainNow | OnCancelTraining

record button =
  button_disabled :: bool
  button_loading :: bool
  button_onClick :: handler
  button_label :: string

definition view :: "bool \<Rightarrow> widget \<Rightarrow> button" where
  "view autoTrain w =
     (if training w then
        \<lparr>button_disabled = cancelling w, button_loading = loading w,
         button_onClick = OnCancelTraining, button_label = ''module.nlu.cancelTraining''\<rparr>
      else
        \<lparr>button_disabled = False, button_loading = loading w,
         button_onClick = OnTrainNow,
         button_label = (if autoTrain then ''module.nlu.retrainAll'' else ''module.nlu.trainNow'')\<rparr>)"

section \<open>Sample inputs\<close>

text \<open>A card with one button of each kind, and an action of a kind the renderer does not know.\<close>

definition sample_say :: action where
  "sample_say =
     \<lparr>a_action = Some ''Say something'', a_title = JStr ''Hello'', a_text = JStr ''hello there'',
      a_url = None, a_payload = JUndefined\<rparr>"

definition sample_open :: action where
  "sample_open =
     \<lparr>a_action = Some ''Open URL'', a_title = JStr ''Docs'', a_text = JUndefined,
      a_url = Some ''BOT_URL/docs'', a_payload = JUndefined\<rparr>"

definition sample_postback :: action where
  "sample_postback =
     \<lparr>a_action = Some ''Postback'', a_title = JStr ''Buy'', a_text = JUndefined,
      a_url = None, a_payload = JStr ''buy''\<rparr>"

definition sample_call :: action where
  "sample_call =
     \<lparr>a_action = Some ''Call'', a_title = JStr ''Call us'', a_text = JUndefined,
      a_url = None, a_payload = JUndefined\<rparr>"

definition sample_card :: "action list \<Rightarrow> card" where
  "sample_card as =
     \<lparr>card_title = JStr ''Plans'', card_image = Some ''/media/plans.png'',
      card_subtitle = JStr ''Pick one'', card_actions = Some as\<rparr>"

definition sample_data :: "action list \<Rightarrow> data" where
  "sample_data as =
     \<lparr>data_typing = JBool True, data_collectFeedback = JBool False,
      data_BOT_URL = Some ''http://localhost:3000'', data_items = [sample_card as]\<rparr>"

text \<open>\<open>{items: [{title: 'A', actions: []}]}\<close>: every other field is absent.\<close>

definition card_A :: data where
  "card_A =
     \<lparr>data_typing = JUndefined, data_collectFeedback = JUndefined, data_BOT_URL = None,
      data_items = [\<lparr>card_title = JStr ''A'', card_image = None, card_subtitle = JUndefined,
                      card_actions = Some []\<rparr>]\<rparr>"

text \<open>A renderer standing for \<open>base.renderer\<close>: one event that names the kind it was given.\<close>

definition sample_base_renderer :: "data \<Rightarrow> string \<Rightarrow> error + jsval list" where
  "sample_base_renderer d kind = Inr [JObj [(''type'', JStr kind)]]"

text \<open>
  Requests to the routes: a prediction on a stored model with and without a sentence,
  and a training request with a seed.
\<close>

definition predict_request :: "(string \<times> jsval) list \<Rightarrow> request" where
  "predict_request b = \<lparr>req_modelId = ''stored'', req_body = b\<rparr>"

definition train_request :: "real \<Rightarrow> request" where
  "train_request seed =
     \<lparr>req_modelId = [],
      req_body = [(''language'', JStr ''en''),
                  (''topics'', JObj [(''global'', JArr [JStr ''greet'', JStr ''bye''])]),
                  (''entities'', JArr []),
                  (''seed'', JNum (Finite seed))]\<rparr>"

text \<open>
  A status event of the NLU module, and a run of the widget on which the answer of
  \<open>api.cancelTraining\<close> comes after the \<open>canceled\<close> event: the widget is
  mounted and learns that nothing is training, the user starts a training and cancels
  it, the event arrives, the answer arrives, and the user starts the next training.
\<close>

definition nlu_event :: "string \<Rightarrow> event" where
  "nlu_event status = \<lparr>event_type = ''nlu'', event_trainSession = \<lparr>session_status = status\<rparr>\<rparr>"

definition late_answer_run :: "widget_step list" where
  "late_answer_run =
     [Mount, IsTrainingAnswered False, TrainNow, CancelTraining,
      StatusbarEvent (nlu_event ''canceled''), CancelTrainingAnswered, TrainNow]"

section \<open>Facts about the helpers\<close>

lemma map_throw_throws: "x \<in> set xs \<Longrightarrow> f x = Inl e \<Longrightarrow> \<exists>e'. map_throw f xs = Inl e'"
  by (induction xs) (auto split: sum.splits)

lemma render_card_throws:
  assumes "card_actions c = Some as" and "a \<in> set as" and "render_button d a = Inl e"
  shows "\<exists>e'. render_card d c = Inl e'"
proof -
  obtain e' where "map_throw (render_button d) as = Inl e'"
    using map_throw_throws [of a as "render_button d" e] assms(2,3) by blast
  then show ?thesis using assms(1) by (simp add: render_card_def)
qed

lemma render_throws:
  assumes "c \<in> set (data_items d)" and "render_card d c = Inl e"
  shows "\<exists>e'. render d = Inl e'"
proof -
  obtain e' where "map_throw (render_card d) (data_items d) = Inl e'"
    using map_throw_throws [of c "data_items d" "render_card d" e] assms by blast
  then show ?thesis by (simp add: render_def)
qed

lemma map_throw_nth:
  "map_throw f xs = Inr ys \<Longrightarrow>
     length ys = length xs \<and> (\<forall>i < length xs. f (xs ! i) = Inr (ys ! i))"
proof (induction xs arbitrary: ys)
  case Nil
  then show ?case by simp
next
  case (Cons x xs)
  from Cons.prems obtain y zs where fx: "f x = Inr y" and rest: "map_throw f xs = Inr zs"
    and ys: "ys = y # zs"
    by (auto split: sum.splits)
  from Cons.IH [OF rest] have len: "length zs = length xs"
    and nth: "\<And>i. i < length xs \<Longrightarrow> f (xs ! i) = Inr (zs ! i)"
    by auto
  show ?case
  proof (intro conjI allI impI)
    show "length ys = length (x # xs)" using len ys by simp
  next
    fix i assume "i < length (x # xs)"
    then show "f ((x # xs) ! i) = Inr (ys ! i)"
      using fx nth ys by (cases i) auto
  qed
qed

lemma render_card_buttons:
  "render_card d c = Inr el \<Longrightarrow> card_actions c = Some as \<Longrightarrow>
     \<exists>bs. map_throw (render_button d) as = Inr bs \<and> get_prop ''buttons'' el = JArr bs"
  by (auto simp: render_card_def field_def split: sum.splits)

lemma render_elements:
  "render d = Inr evs \<Longrightarrow>
     \<exists>els. map_throw (render_card d) (data_items d) = Inr els
       \<and> get_prop ''elements'' (last evs) = JArr els"
  by (auto simp: render_def field_def split: sum.splits)

lemma render_buttons_in_payload:
  assumes "render d = Inr evs" and "i < length (data_items d)"
    and "card_actions (data_items d ! i) = Some as" and "j < length as"
  shows "render_button d (as ! j) =
     Inr (elements (get_prop ''buttons'' (elements (get_prop ''elements'' (last evs)) ! i)) ! j)"
proof -
  from render_elements [OF assms(1)]
  obtain els where els: "map_throw (render_card d) (data_items d) = Inr els"
    and last: "get_prop ''elements'' (last evs) = JArr els"
    by blast
  from map_throw_nth [OF els] assms(2) have "render_card d (data_items d ! i) = Inr (els ! i)"
    by simp
  from render_card_buttons [OF this assms(3)]
  obtain bs where bs: "map_throw (render_button d) as = Inr bs"
    and el: "get_prop ''buttons'' (els ! i) = JArr bs"
    by blast
  from map_throw_nth [OF bs] assms(4) have "render_button d (as ! j) = Inr (bs ! j)"
    by simp
  then show ?thesis using last el by simp
qed

lemma post_predict_eq:
  "post_predict svc req s =
     (let modelId = req_modelId req;
          sentence = field ''sentence'' (req_body req);
          password = nullish (field ''password'' (req_body req)) (JStr [])
      in case getModel svc modelId password (world s) of
           (Inl err, w1) \<Rightarrow>
             (failure 404 (message err),
              \<lparr>world = w1, calls = calls s @ [GetModel modelId password]\<rparr>)
         | (Inr None, w1) \<Rightarrow>
             (failure 404 (''modelId '' @ modelId @ '' can'' @ [CHR 0x27] @ ''t be found''),
              \<lparr>world = w1, calls = calls s @ [GetModel modelId password]\<rparr>)
         | (Inr (Some m), w1) \<Rightarrow>
             (case loadModel svc m w1 of
                (Inl err, w2) \<Rightarrow>
                  (failure 404 (message err),
                   \<lparr>world = w2, calls = calls s @ [GetModel modelId password, LoadModel m]\<rparr>)
              | (Inr u, w2) \<Rightarrow>
                  (case predict svc sentence [] (languageCode m) w2 of
                     (Inl err, w3) \<Rightarrow>
                       (failure 404 (message err),
                        \<lparr>world = w3,
                         calls = calls s @ [GetModel modelId password, LoadModel m,
                                            Predict sentence [] (languageCode m)]\<rparr>)
                   | (Inr prediction, w3) \<Rightarrow>
                       (case unloadModel svc (languageCode m) w3 of
                          (Inl err, w4) \<Rightarrow>
                            (failure 404 (message err),
                             \<lparr>world = w4,
                              calls = calls s @ [GetModel modelId password, LoadModel m,
                                                 Predict sentence [] (languageCode m),
                                                 UnloadModel (languageCode m)]\<rparr>)
                        | (Inr u', w4) \<Rightarrow>
                            (\<lparr>res_status = 200,
                              res_body = JObj [(''success'', JBool True), (''prediction'', prediction)]\<rparr>,
                             \<lparr>world = w4,
                              calls = calls s @ [GetModel modelId password, LoadModel m,
                                                 Predict sentence [] (languageCode m),
                                                 UnloadModel (languageCode m)]\<rparr>)))))"
  by (simp add: post_predict_def try_catch_def and_then_def invoke_def send_def failure_def Let_def
           split: prod.splits sum.splits option.splits)

lemma get_train_eq:
  "get_train svc req s =
     (case getTrainingSession svc (req_modelId req) (world s) of
        (Inl err, w1) \<Rightarrow>
          (\<lparr>res_status = 500,
            res_body = JObj [(''success'', JBool False), (''error'', JStr (message err))]\<rparr>,
           \<lparr>world = w1, calls = calls s @ [GetTrainingSession (req_modelId req)]\<rparr>)
      | (Inr session, w1) \<Rightarrow>
          if truthy session then
            (\<lparr>res_status = 200,
              res_body = JObj [(''success'', JBool True), (''session'', session)]\<rparr>,
             \<lparr>world = w1, calls = calls s @ [GetTrainingSession (req_modelId req)]\<rparr>)
          else
            (case getModel svc (req_modelId req)
                    (nullish (field ''password'' (req_body req)) (JStr [])) w1 of
               (Inl err, w2) \<Rightarrow>
                 (\<lparr>res_status = 500,
                   res_body = JObj [(''success'', JBool False), (''error'', JStr (message err))]\<rparr>,
                  \<lparr>world = w2,
                   calls = calls s @
                     [GetTrainingSession (req_modelId req),
                      GetModel (req_modelId req)
                        (nullish (field ''password'' (req_body req)) (JStr []))]\<rparr>)
             | (Inr None, w2) \<Rightarrow>
                 (\<lparr>res_status = 404,
                   res_body = JObj [(''success'', JBool False),
                                    (''error'', JStr (''no model or training could be found for modelId: ''
                                                      @ req_modelId req))]\<rparr>,
                  \<lparr>world = w2,
                   calls = calls s @
                     [GetTrainingSession (req_modelId req),
                      GetModel (req_modelId req)
                        (nullish (field ''password'' (req_body req)) (JStr []))]\<rparr>)
             | (Inr (Some m), w2) \<Rightarrow>
                 (\<lparr>res_status = 200,
                   res_body = JObj [(''success'', JBool True),
                                    (''session'', JObj [(''status'', JStr ''done''),
                                                        (''progress'', JNum (Finite 1)),
                                                        (''language'', languageCode m)])]\<rparr>,
                  \<lparr>world = w2,
                   calls = calls s @
                     [GetTrainingSession (req_modelId req),
                      GetModel (req_modelId req)
                        (nullish (field ''password'' (req_body req)) (JStr []))]\<rparr>)))"
  by (simp add: get_train_def try_catch_def and_then_def invoke_def send_def failure_def Let_def
           split: prod.splits sum.splits option.splits)

lemma post_train_eq:
  "post_train svc req s =
     (case validate svc (req_body req) of
        Inl err \<Rightarrow>
          (\<lparr>res_status = 500,
            res_body = JObj [(''success'', JBool False), (''error'', JStr (message err))]\<rparr>, s)
      | Inr input \<Rightarrow>
          (case computeModelHash svc (flatMap (map snd (input_topics input)))
                  (input_entities input) (input_language input) of
             Inl err \<Rightarrow>
               (\<lparr>res_status = 500,
                 res_body = JObj [(''success'', JBool False), (''error'', JStr (message err))]\<rparr>, s)
           | Inr modelHash \<Rightarrow>
               (case makeModelId svc modelHash (input_language input) (input_seed input) of
                  Inl err \<Rightarrow>
                    (\<lparr>res_status = 500,
                      res_body = JObj [(''success'', JBool False), (''error'', JStr (message err))]\<rparr>,
                     s)
                | Inr modelId \<Rightarrow>
                    (case train svc modelId (input_password input)
                            (flatMap (map snd (input_topics input))) (input_entities input)
                            (input_language input) (world s) of
                       (Inl err, w1) \<Rightarrow>
                         (\<lparr>res_status = 500,
                           res_body = JObj [(''success'', JBool False),
                                            (''error'', JStr (message err))]\<rparr>,
                          \<lparr>world = w1,
                           calls = calls s @
                             [Train modelId (input_password input)
                                (flatMap (map snd (input_topics input))) (input_entities input)
                                (input_language input)]\<rparr>)
                     | (Inr dropped, w1) \<Rightarrow>
                         (\<lparr>res_status = 200,
                           res_body = JObj [(''success'', JBool True), (''modelId'', modelId)]\<rparr>,
                          \<lparr>world = w1,
                           calls = calls s @
                             [Train modelId (input_password input)
                                (flatMap (map snd (input_topics input))) (input_entities input)
                                (input_language input)]\<rparr>)))))"
  by (simp add: post_train_def try_catch_def and_then_def compute_def invoke_def send_def
                failure_def Let_def
           split: prod.splits sum.splits option.splits)

lemma on_statusbar_event_resets:
  "event_type e = ''nlu'' \<Longrightarrow> session_status (event_trainSession e) \<in> {''done'', ''canceled''} \<Longrightarrow>
     on_statusbar_event e w = w\<lparr>training := False, cancelling := False\<rparr>"
  by (auto simp: on_statusbar_event_def isDoneOrCancelled_def)

section \<open>The carousel renderer\<close>

text \<open>
  C1. A card action whose \<open>action\<close> is \<open>Say something\<close>, \<open>Open URL\<close> or
  \<open>Postback\<close> becomes a button of the fixed shape \<open>{type: 'say_something', title, text}\<close>,
  \<open>{type: 'open_url', title, url}\<close> or \<open>{type: 'postback', title, payload}\<close>, and
  that button is what the payload returned by \<open>render\<close> holds at the action's place.
  Any other \<open>action\<close> makes the callback throw, and \<open>render\<close> throws for every
  data that has such an action on one of its cards: no payload is returned.
\<close>

theorem render_button_by_action:
  "(a_action a = Some ''Say something'' \<longrightarrow>
      render_button d a =
        Inr (JObj [(''type'', JStr ''say_something''), (''title'', a_title a), (''text'', a_text a)]))
   \<and> (a_action a = Some ''Open URL'' \<longrightarrow>
      render_button d a =
        Inr (JObj [(''type'', JStr ''open_url''), (''title'', a_title a),
                   (''url'', (case a_url a of
                                None \<Rightarrow> JUndefined
                              | Some u \<Rightarrow>
                                  if u = [] then JStr []
                                  else JStr (replace u ''BOT_URL'' (to_string (data_BOT_URL d)))))]))
   \<and> (a_action a = Some ''Postback'' \<longrightarrow>
      render_button d a =
        Inr (JObj [(''type'', JStr ''postback''), (''title'', a_title a), (''payload'', a_payload a)]))
   \<and> (render d = Inr evs \<and> i < length (data_items d)
        \<and> card_actions (data_items d ! i) = Some as \<and> j < length as \<longrightarrow>
      render_button d (as ! j) =
        Inr (elements (get_prop ''buttons'' (elements (get_prop ''elements'' (last evs)) ! i)) ! j))
   \<and> (a_action a \<notin> {Some ''Say something'', Some ''Open URL'', Some ''Postback''} \<longrightarrow>
      (\<exists>msg. render_button d a = Inl (Error msg))
      \<and> (\<forall>c \<in> set (data_items d). \<forall>as. card_actions c = Some as \<and> a \<in> set as \<longrightarrow>
            (\<exists>e. render d = Inl e)))"
proof (intro conjI impI)
  assume "a_action a = Some ''Say something''"
  then show "render_button d a =
        Inr (JObj [(''type'', JStr ''say_something''), (''title'', a_title a), (''text'', a_text a)])"
    by (simp add: render_button_def)
next
  assume "a_action a = Some ''Open URL''"
  then show "render_button d a =
        Inr (JObj [(''type'', JStr ''open_url''), (''title'', a_title a),
                   (''url'', (case a_url a of
                                None \<Rightarrow> JUndefined
                              | Some u \<Rightarrow>
                                  if u = [] then JStr []
                                  else JStr (replace u ''BOT_URL'' (to_string (data_BOT_URL d)))))])"
    by (simp add: render_button_def split: option.splits)
next
  assume "a_action a = Some ''Postback''"
  then show "render_button d a =
        Inr (JObj [(''type'', JStr ''postback''), (''title'', a_title a), (''payload'', a_payload a)])"
    by (simp add: render_button_def)
next
  assume "render d = Inr evs \<and> i < length (data_items d)
        \<and> card_actions (data_items d ! i) = Some as \<and> j < length as"
  then show "render_button d (as ! j) =
        Inr (elements (get_prop ''buttons'' (elements (get_prop ''elements'' (last evs)) ! i)) ! j)"
    using render_buttons_in_payload by blast
next
  assume other: "a_action a \<notin> {Some ''Say something'', Some ''Open URL'', Some ''Postback''}"
  then show thrown: "\<exists>msg. render_button d a = Inl (Error msg)"
    by (simp add: render_button_def)
  show "\<forall>c \<in> set (data_items d). \<forall>as. card_actions c = Some as \<and> a \<in> set as \<longrightarrow>
            (\<exists>e. render d = Inl e)"
  proof (intro ballI allI impI)
    fix c as
    assume c: "c \<in> set (data_items d)" and as: "card_actions c = Some as \<and> a \<in> set as"
    from thrown obtain msg where "render_button d a = Inl (Error msg)" by blast
    with as obtain e' where "render_card d c = Inl e'"
      using render_card_throws by blast
    with c show "\<exists>e. render d = Inl e" using render_throws by blast
  qed
qed

theorem render_button_by_action_witness:
  "render_button (sample_data [sample_say, sample_open, sample_postback]) sample_say =
     Inr (JObj [(''type'', JStr ''say_something''), (''title'', JStr ''Hello''),
                (''text'', JStr ''hello there'')])
   \<and> render_button (sample_data [sample_say, sample_open, sample_postback]) sample_open =
     Inr (JObj [(''type'', JStr ''open_url''), (''title'', JStr ''Docs''),
                (''url'', JStr ''http://localhost:3000/docs'')])
   \<and> render_button (sample_data [sample_say, sample_open, sample_postback]) sample_postback =
     Inr (JObj [(''type'', JStr ''postback''), (''title'', JStr ''Buy''), (''payload'', JStr ''buy'')])
   \<and> (\<exists>evs. render (sample_data [sample_say, sample_open, sample_postback]) = Inr evs
        \<and> elements (get_prop ''buttons'' (elements (get_prop ''elements'' (last evs)) ! 0)) ! 1 =
            JObj [(''type'', JStr ''open_url''), (''title'', JStr ''Docs''),
                  (''url'', JStr ''http://localhost:3000/docs'')])
   \<and> a_action sample_call \<notin> {Some ''Say something'', Some ''Open URL'', Some ''Postback''}
   \<and> (\<exists>msg. render_button (sample_data [sample_say, sample_call]) sample_call = Inl (Error msg))
   \<and> (\<exists>e. render (sample_data [sample_say, sample_call]) = Inl e)"
proof -
  let ?good = "sample_data [sample_say, sample_open, sample_postback]"
  have url: "replace ''BOT_URL/docs'' ''BOT_URL'' ''http://localhost:3000'' = ''http://localhost:3000/docs''"
    by (simp add: replace_def)
  have buttons: "render_button ?good sample_say =
     Inr (JObj [(''type'', JStr ''say_something''), (''title'', JStr ''Hello''),
                (''text'', JStr ''hello there'')])
   \<and> render_button ?good sample_open =
     Inr (JObj [(''type'', JStr ''open_url''), (''title'', JStr ''Docs''),
                (''url'', JStr ''http://localhost:3000/docs'')])
   \<and> render_button ?good sample_postback =
     Inr (JObj [(''type'', JStr ''postback''), (''title'', JStr ''Buy''), (''payload'', JStr ''buy'')])"
    using render_button_by_action [of sample_say ?good]
      render_button_by_action [of sample_open ?good]
      render_button_by_action [of sample_postback ?good]
    by (simp add: url sample_say_def sample_open_def sample_postback_def sample_data_def)
  obtain evs where evs: "render ?good = Inr evs"
    by (simp add: render_def render_card_def render_button_def sample_data_def sample_card_def
          sample_say_def sample_open_def sample_postback_def)
  have "render_button ?good ([sample_say, sample_open, sample_postback] ! 1) =
      Inr (elements (get_prop ''buttons'' (elements (get_prop ''elements'' (last evs)) ! 0)) ! 1)"
    using render_button_by_action [of _ ?good evs 0 "[sample_say, sample_open, sample_postback]" 1] evs
    by (simp add: sample_data_def sample_card_def)
  with buttons have placed:
    "elements (get_prop ''buttons'' (elements (get_prop ''elements'' (last evs)) ! 0)) ! 1 =
       JObj [(''type'', JStr ''open_url''), (''title'', JStr ''Docs''),
             (''url'', JStr ''http://localhost:3000/docs'')]"
    by simp
  have bad: "a_action sample_call \<notin> {Some ''Say something'', Some ''Open URL'', Some ''Postback''}
   \<and> (\<exists>msg. render_button (sample_data [sample_say, sample_call]) sample_call = Inl (Error msg))
   \<and> (\<exists>e. render (sample_data [sample_say, sample_call]) = Inl e)"
    using render_button_by_action [of sample_call "sample_data [sample_say, sample_call]"]
    by (simp add: sample_call_def sample_data_def sample_card_def)
  from buttons evs placed bad show ?thesis by blast
qed

text \<open>
  C6. When \<open>data.typing\<close> is truthy, the list of events that \<open>render\<close> returns
  starts with an event of type \<open>typing\<close>, and the carousel payload is the event after it.
\<close>

theorem typing_event_first:
  "truthy (data_typing d) \<Longrightarrow> render d = Inr evs \<Longrightarrow>
     \<exists>carousel. evs = [JObj [(''type'', JStr ''typing''), (''value'', data_typing d)], carousel]
       \<and> get_prop ''type'' (hd evs) = JStr ''typing''
       \<and> get_prop ''type'' carousel = JStr ''carousel''"
  by (auto simp: render_def field_def split: sum.splits)

theorem typing_event_first_witness:
  "truthy (data_typing (sample_data [sample_say]))
   \<and> render (sample_data [sample_say]) =
       Inr [JObj [(''type'', JStr ''typing''), (''value'', JBool True)],
            JObj [(''text'', JStr '' ''), (''type'', JStr ''carousel''),
                  (''collectFeedback'', JBool False),
                  (''elements'',
                   JArr [JObj [(''title'', JStr ''Plans''),
                               (''picture'', JStr ''http://localhost:3000/media/plans.png''),
                               (''subtitle'', JStr ''Pick one''),
                               (''buttons'',
                                JArr [JObj [(''type'', JStr ''say_something''),
                                            (''title'', JStr ''Hello''),
                                            (''text'', JStr ''hello there'')]])]])]]
   \<and> get_prop ''type'' (hd [JObj [(''type'', JStr ''typing''), (''value'', JBool True)],
            JObj [(''text'', JStr '' ''), (''type'', JStr ''carousel''),
                  (''collectFeedback'', JBool False),
                  (''elements'',
                   JArr [JObj [(''title'', JStr ''Plans''),
                               (''picture'', JStr ''http://localhost:3000/media/plans.png''),
                               (''subtitle'', JStr ''Pick one''),
                               (''buttons'',
                                JArr [JObj [(''type'', JStr ''say_something''),
                                            (''title'', JStr ''Hello''),
                                            (''text'', JStr ''hello there'')]])]])]]) = JStr ''typing''"
proof -
  have t: "truthy (data_typing (sample_data [sample_say]))"
    by (simp add: sample_data_def)
  have r: "render (sample_data [sample_say]) =
       Inr [JObj [(''type'', JStr ''typing''), (''value'', JBool True)],
            JObj [(''text'', JStr '' ''), (''type'', JStr ''carousel''),
                  (''collectFeedback'', JBool False),
                  (''elements'',
                   JArr [JObj [(''title'', JStr ''Plans''),
                               (''picture'', JStr ''http://localhost:3000/media/plans.png''),
                               (''subtitle'', JStr ''Pick one''),
                               (''buttons'',
                                JArr [JObj [(''type'', JStr ''say_something''),
                                            (''title'', JStr ''Hello''),
                                            (''text'', JStr ''hello there'')]])]])]]"
    by (simp add: render_def render_card_def render_button_def sample_data_def sample_card_def
          sample_say_def)
  show ?thesis using t r typing_event_first [OF t r] by (simp add: field_def)
qed

text \<open>
  C7. On a channel outside the allow-list, \<open>renderElement\<close> on data whose items are
  the one card \<open>{title: 'A', actions: []}\<close> returns a payload whose carousel event has
  one element, with \<open>elements[0].title\<close> equal to \<open>'A'\<close> and
  \<open>elements[0].buttons\<close> of length 0.
\<close>

theorem single_card_on_unsupported_channel:
  "channel \<notin> set (map JStr supported_channels) \<Longrightarrow> data_items d = [c] \<Longrightarrow>
   card_title c = JStr ''A'' \<Longrightarrow> card_actions c = Some [] \<Longrightarrow>
     \<exists>evs carousel. renderElement base_renderer d channel = Inr evs
       \<and> carousel = last evs
       \<and> get_prop ''type'' carousel = JStr ''carousel''
       \<and> length (elements (get_prop ''elements'' carousel)) = 1
       \<and> get_prop ''title'' (elements (get_prop ''elements'' carousel) ! 0) = JStr ''A''
       \<and> get_prop ''buttons'' (elements (get_prop ''elements'' carousel) ! 0) = JArr []
       \<and> length (elements (get_prop ''buttons'' (elements (get_prop ''elements'' carousel) ! 0))) = 0"
  by (simp add: renderElement_def render_def render_card_def field_def)

theorem single_card_on_unsupported_channel_witness:
  "JStr ''vonage'' \<notin> set (map JStr supported_channels)
   \<and> renderElement sample_base_renderer card_A (JStr ''vonage'') =
       Inr [JObj [(''text'', JStr '' ''), (''type'', JStr ''carousel''),
                  (''collectFeedback'', JUndefined),
                  (''elements'',
                   JArr [JObj [(''title'', JStr ''A''), (''picture'', JNull),
                               (''subtitle'', JUndefined), (''buttons'', JArr [])]])]]
   \<and> (\<exists>evs. renderElement sample_base_renderer card_A (JStr ''vonage'') = Inr evs
        \<and> get_prop ''title'' (elements (get_prop ''elements'' (last evs)) ! 0) = JStr ''A''
        \<and> length (elements (get_prop ''buttons'' (elements (get_prop ''elements'' (last evs)) ! 0))) = 0)"
proof -
  have ch: "JStr ''vonage'' \<notin> set (map JStr supported_channels)"
    by (simp add: supported_channels_def)
  have r: "renderElement sample_base_renderer card_A (JStr ''vonage'') =
       Inr [JObj [(''text'', JStr '' ''), (''type'', JStr ''carousel''),
                  (''collectFeedback'', JUndefined),
                  (''elements'',
                   JArr [JObj [(''title'', JStr ''A''), (''picture'', JNull),
                               (''subtitle'', JUndefined), (''buttons'', JArr [])]])]]"
    by (simp add: renderElement_def supported_channels_def render_def render_card_def card_A_def)
  have "\<exists>evs. renderElement sample_base_renderer card_A (JStr ''vonage'') = Inr evs
        \<and> get_prop ''title'' (elements (get_prop ''elements'' (last evs)) ! 0) = JStr ''A''
        \<and> length (elements (get_prop ''buttons'' (elements (get_prop ''elements'' (last evs)) ! 0))) = 0"
    using single_card_on_unsupported_channel [OF ch, of card_A "hd (data_items card_A)" sample_base_renderer]
    by (auto simp: card_A_def)
  with ch r show ?thesis by blast
qed

text \<open>
  C8. For each of the channels \<open>web\<close>, \<open>slack\<close>, \<open>teams\<close>, \<open>messenger\<close>,
  \<open>telegram\<close> and \<open>twilio\<close>, \<open>renderElement\<close> returns what \<open>base.renderer\<close>
  returns for the data and the kind \<open>carousel\<close>; for every other channel it returns
  what the local \<open>render\<close> returns.
\<close>

theorem renderElement_by_channel:
  "(\<forall>name \<in> {''web'', ''slack'', ''teams'', ''messenger'', ''telegram'', ''twilio''}.
      renderElement base_renderer d (JStr name) = base_renderer d ''carousel'')
   \<and> (channel \<notin> JStr ` {''web'', ''slack'', ''teams'', ''messenger'', ''telegram'', ''twilio''} \<longrightarrow>
      renderElement base_renderer d channel = render d)"
  by (simp add: renderElement_def supported_channels_def)

theorem renderElement_by_channel_witness:
  "renderElement sample_base_renderer card_A (JStr ''web'') = Inr [JObj [(''type'', JStr ''carousel'')]]
   \<and> renderElement sample_base_renderer card_A (JStr ''slack'') = Inr [JObj [(''type'', JStr ''carousel'')]]
   \<and> renderElement sample_base_renderer card_A (JStr ''teams'') = Inr [JObj [(''type'', JStr ''carousel'')]]
   \<and> renderElement sample_base_renderer card_A (JStr ''messenger'') = Inr [JObj [(''type'', JStr ''carousel'')]]
   \<and> renderElement sample_base_renderer card_A (JStr ''telegram'') = Inr [JObj [(''type'', JStr ''carousel'')]]
   \<and> renderElement sample_base_renderer card_A (JStr ''twilio'') = Inr [JObj [(''type'', JStr ''carousel'')]]
   \<and> JStr ''vonage'' \<notin> JStr ` {''web'', ''slack'', ''teams'', ''messenger'', ''telegram'', ''twilio''}
   \<and> renderElement sample_base_renderer card_A (JStr ''vonage'') = render card_A
   \<and> JUndefined \<notin> JStr ` {''web'', ''slack'', ''teams'', ''messenger'', ''telegram'', ''twilio''}
   \<and> renderElement sample_base_renderer card_A JUndefined = render card_A"
  using renderElement_by_channel [of sample_base_renderer card_A "JStr ''vonage''"]
    renderElement_by_channel [of sample_base_renderer card_A JUndefined]
  by (simp add: sample_base_renderer_def)

section \<open>The routes of the NLU server\<close>

text \<open>
  C2. \<open>POST /predict/:modelId\<close>: when \<open>getModel\<close> returns a model and no call
  throws, the handler calls \<open>loadModel\<close>, then \<open>predict\<close> on the request's
  sentence, then \<open>unloadModel\<close>, in that order, and answers
  \<open>{success: true, prediction}\<close> with status 200. When no model is found, and when
  \<open>getModel\<close>, \<open>loadModel\<close>, \<open>predict\<close> or \<open>unloadModel\<close> throws, it
  answers status 404 with \<open>{success: false, error}\<close>.
\<close>

theorem post_predict_outcomes:
  assumes "modelId = req_modelId req"
    and "sentence = field ''sentence'' (req_body req)"
    and "password = nullish (field ''password'' (req_body req)) (JStr [])"
  shows
  "(getModel svc modelId password (world s) = (Inr (Some m), w1)
      \<and> loadModel svc m w1 = (Inr (), w2)
      \<and> predict svc sentence [] (languageCode m) w2 = (Inr prediction, w3)
      \<and> unloadModel svc (languageCode m) w3 = (Inr (), w4) \<longrightarrow>
    post_predict svc req s =
      (\<lparr>res_status = 200,
        res_body = JObj [(''success'', JBool True), (''prediction'', prediction)]\<rparr>,
       \<lparr>world = w4,
        calls = calls s @ [GetModel modelId password, LoadModel m,
                           Predict sentence [] (languageCode m), UnloadModel (languageCode m)]\<rparr>))
   \<and> (getModel svc modelId password (world s) = (Inr None, w1) \<longrightarrow>
    fst (post_predict svc req s) =
      \<lparr>res_status = 404,
       res_body = JObj [(''success'', JBool False), (''error'', JStr (''modelId '' @ modelId @ '' can'' @ [CHR 0x27] @ ''t be found''))]\<rparr>)
   \<and> (getModel svc modelId password (world s) = (Inl err, w1) \<longrightarrow>
    fst (post_predict svc req s) = \<lparr>res_status = 404,
                                    res_body = JObj [(''success'', JBool False), (''error'', JStr (message err))]\<rparr>)
   \<and> (getModel svc modelId password (world s) = (Inr (Some m), w1)
      \<and> loadModel svc m w1 = (Inl err, w2) \<longrightarrow>
    fst (post_predict svc req s) = \<lparr>res_status = 404,
                                    res_body = JObj [(''success'', JBool False), (''error'', JStr (message err))]\<rparr>)
   \<and> (getModel svc modelId password (world s) = (Inr (Some m), w1)
      \<and> loadModel svc m w1 = (Inr (), w2)
      \<and> predict svc sentence [] (languageCode m) w2 = (Inl err, w3) \<longrightarrow>
    fst (post_predict svc req s) = \<lparr>res_status = 404,
                                    res_body = JObj [(''success'', JBool False), (''error'', JStr (message err))]\<rparr>)
   \<and> (getModel svc modelId password (world s) = (Inr (Some m), w1)
      \<and> loadModel svc m w1 = (Inr (), w2)
      \<and> predict svc sentence [] (languageCode m) w2 = (Inr prediction, w3)
      \<and> unloadModel svc (languageCode m) w3 = (Inl err, w4) \<longrightarrow>
    fst (post_predict svc req s) = \<lparr>res_status = 404,
                                    res_body = JObj [(''success'', JBool False), (''error'', JStr (message err))]\<rparr>)"
  using assms by (simp add: post_predict_eq Let_def failure_def)

theorem post_predict_outcomes_witness:
  "post_predict demo_services (predict_request [(''sentence'', JStr ''hi'')]) demo_start =
     (\<lparr>res_status = 200,
       res_body = JObj [(''success'', JBool True),
                        (''prediction'', JObj [(''language'', JStr ''en''),
                                               (''utterance'', JStr ''hi'')])]\<rparr>,
      \<lparr>world = world demo_start,
       calls = [GetModel ''stored'' (JStr []), LoadModel demo_model,
                Predict (JStr ''hi'') [] (JStr ''en''), UnloadModel (JStr ''en'')]\<rparr>)
   \<and> fst (post_predict demo_services \<lparr>req_modelId = ''lost'', req_body = []\<rparr> demo_start) =
       \<lparr>res_status = 404,
        res_body = JObj [(''success'', JBool False), (''error'', JStr (''modelId lost can'' @ [CHR 0x27] @ ''t be found''))]\<rparr>
   \<and> fst (post_predict demo_services (predict_request []) demo_start) =
       \<lparr>res_status = 404,
        res_body = JObj [(''success'', JBool False), (''error'', JStr ''sentence is required'')]\<rparr>
   \<and> fst (post_predict (demo_services\<lparr>getModel := \<lambda>modelId password w.
                                          (Inl (Error ''no disk''), w)\<rparr>)
             (predict_request [(''sentence'', JStr ''hi'')]) demo_start) =
       \<lparr>res_status = 404,
        res_body = JObj [(''success'', JBool False), (''error'', JStr ''no disk'')]\<rparr>
   \<and> fst (post_predict (demo_services\<lparr>loadModel := \<lambda>m w. (Inl (Error ''no memory''), w)\<rparr>)
             (predict_request [(''sentence'', JStr ''hi'')]) demo_start) =
       \<lparr>res_status = 404,
        res_body = JObj [(''success'', JBool False), (''error'', JStr ''no memory'')]\<rparr>
   \<and> fst (post_predict (demo_services\<lparr>unloadModel := \<lambda>language w.
                                          (Inl (Error ''not loaded''), w)\<rparr>)
             (predict_request [(''sentence'', JStr ''hi'')]) demo_start) =
       \<lparr>res_status = 404,
        res_body = JObj [(''success'', JBool False), (''error'', JStr ''not loaded'')]\<rparr>"
proof -
  have found: "getModel demo_services ''stored'' (JStr []) (world demo_start)
      = (Inr (Some demo_model), world demo_start)"
    by (simp add: demo_services_def demo_start_def)
  have missing: "getModel demo_services ''lost'' (JStr []) (world demo_start)
      = (Inr None, world demo_start)"
    by (simp add: demo_services_def demo_start_def)
  have load: "loadModel demo_services demo_model (world demo_start)
      = (Inr (), (world demo_start)\<lparr>loaded := [JStr ''en'']\<rparr>)"
    by (simp add: demo_services_def demo_start_def demo_model_def)
  have pred: "predict demo_services (JStr ''hi'') [] (languageCode demo_model)
        ((world demo_start)\<lparr>loaded := [JStr ''en'']\<rparr>)
      = (Inr (JObj [(''language'', JStr ''en''), (''utterance'', JStr ''hi'')]),
         (world demo_start)\<lparr>loaded := [JStr ''en'']\<rparr>)"
    by (simp add: demo_services_def demo_model_def)
  have thrown: "predict demo_services JUndefined [] (languageCode demo_model)
        ((world demo_start)\<lparr>loaded := [JStr ''en'']\<rparr>)
      = (Inl (Error ''sentence is required''), (world demo_start)\<lparr>loaded := [JStr ''en'']\<rparr>)"
    by (simp add: demo_services_def demo_model_def)
  have unload: "unloadModel demo_services (languageCode demo_model)
        ((world demo_start)\<lparr>loaded := [JStr ''en'']\<rparr>)
      = (Inr (), world demo_start)"
    by (simp add: demo_services_def demo_start_def demo_model_def)
  have a: "post_predict demo_services (predict_request [(''sentence'', JStr ''hi'')]) demo_start =
     (\<lparr>res_status = 200,
       res_body = JObj [(''success'', JBool True),
                        (''prediction'', JObj [(''language'', JStr ''en''),
                                               (''utterance'', JStr ''hi'')])]\<rparr>,
      \<lparr>world = world demo_start,
       calls = [GetModel ''stored'' (JStr []), LoadModel demo_model,
                Predict (JStr ''hi'') [] (JStr ''en''), UnloadModel (JStr ''en'')]\<rparr>)"
    using post_predict_outcomes [of "''stored''" "predict_request [(''sentence'', JStr ''hi'')]"
        "JStr ''hi''" "JStr []" demo_services demo_start demo_model "world demo_start"
        "(world demo_start)\<lparr>loaded := [JStr ''en'']\<rparr>"
        "JObj [(''language'', JStr ''en''), (''utterance'', JStr ''hi'')]"
        "(world demo_start)\<lparr>loaded := [JStr ''en'']\<rparr>" "world demo_start"]
      found load pred unload
    by (simp add: predict_request_def field_def demo_model_def demo_start_def)
  have b: "fst (post_predict demo_services \<lparr>req_modelId = ''lost'', req_body = []\<rparr> demo_start) =
       \<lparr>res_status = 404,
        res_body = JObj [(''success'', JBool False), (''error'', JStr (''modelId lost can'' @ [CHR 0x27] @ ''t be found''))]\<rparr>"
    using post_predict_outcomes [of "''lost''" "\<lparr>req_modelId = ''lost'', req_body = []\<rparr>"
        JUndefined "JStr []" demo_services demo_start demo_model "world demo_start"]
      missing
    by (simp add: field_def)
  have c: "fst (post_predict demo_services (predict_request []) demo_start) =
       \<lparr>res_status = 404,
        res_body = JObj [(''success'', JBool False), (''error'', JStr ''sentence is required'')]\<rparr>"
    using post_predict_outcomes [of "''stored''" "predict_request []"
        JUndefined "JStr []" demo_services demo_start demo_model "world demo_start"
        "(world demo_start)\<lparr>loaded := [JStr ''en'']\<rparr>" _
        "(world demo_start)\<lparr>loaded := [JStr ''en'']\<rparr>" _ "Error ''sentence is required''"]
      found load thrown
    by (simp add: predict_request_def field_def)
  have d: "fst (post_predict (demo_services\<lparr>getModel := \<lambda>modelId password w.
                                          (Inl (Error ''no disk''), w)\<rparr>)
             (predict_request [(''sentence'', JStr ''hi'')]) demo_start) =
       \<lparr>res_status = 404,
        res_body = JObj [(''success'', JBool False), (''error'', JStr ''no disk'')]\<rparr>"
    using post_predict_outcomes [of "''stored''" "predict_request [(''sentence'', JStr ''hi'')]"
        "JStr ''hi''" "JStr []"
        "demo_services\<lparr>getModel := \<lambda>modelId password w. (Inl (Error ''no disk''), w)\<rparr>"
        demo_start demo_model "world demo_start" _ _ _ _ "Error ''no disk''"]
    by (simp add: predict_request_def field_def)
  have e: "fst (post_predict (demo_services\<lparr>loadModel := \<lambda>m w. (Inl (Error ''no memory''), w)\<rparr>)
             (predict_request [(''sentence'', JStr ''hi'')]) demo_start) =
       \<lparr>res_status = 404,
        res_body = JObj [(''success'', JBool False), (''error'', JStr ''no memory'')]\<rparr>"
    using post_predict_outcomes [of "''stored''" "predict_request [(''sentence'', JStr ''hi'')]"
        "JStr ''hi''" "JStr []"
        "demo_services\<lparr>loadModel := \<lambda>m w. (Inl (Error ''no memory''), w)\<rparr>"
        demo_start demo_model "world demo_start" "world demo_start" _ _ _ "Error ''no memory''"]
      found
    by (simp add: predict_request_def field_def)
  have f: "fst (post_predict (demo_services\<lparr>unloadModel := \<lambda>language w.
                                          (Inl (Error ''not loaded''), w)\<rparr>)
             (predict_request [(''sentence'', JStr ''hi'')]) demo_start) =
       \<lparr>res_status = 404,
        res_body = JObj [(''success'', JBool False), (''error'', JStr ''not loaded'')]\<rparr>"
    using post_predict_outcomes [of "''stored''" "predict_request [(''sentence'', JStr ''hi'')]"
        "JStr ''hi''" "JStr []"
        "demo_services\<lparr>unloadModel := \<lambda>language w. (Inl (Error ''not loaded''), w)\<rparr>"
        demo_start demo_model "world demo_start"
        "(world demo_start)\<lparr>loaded := [JStr ''en'']\<rparr>"
        "JObj [(''language'', JStr ''en''), (''utterance'', JStr ''hi'')]"
        "(world demo_start)\<lparr>loaded := [JStr ''en'']\<rparr>"
        "(world demo_start)\<lparr>loaded := [JStr ''en'']\<rparr>" "Error ''not loaded''"]
      found load pred
    by (simp add: predict_request_def field_def)
  from a b c d e f show ?thesis by blast
qed

text \<open>
  C10. \<open>POST /predict/:modelId\<close>: when \<open>predict\<close> throws after \<open>loadModel\<close>
  has returned, the handler answers status 404 with the error's message, the calls of
  the request are \<open>getModel\<close>, \<open>loadModel\<close> and \<open>predict\<close> and no
  \<open>unloadModel\<close>, and the services are left as the failed \<open>predict\<close> left
  them: what \<open>loadModel\<close> changed stays changed.
\<close>

theorem predict_throw_skips_unload:
  assumes "modelId = req_modelId req"
    and "sentence = field ''sentence'' (req_body req)"
    and "password = nullish (field ''password'' (req_body req)) (JStr [])"
    and "getModel svc modelId password (world s) = (Inr (Some m), w1)"
    and "loadModel svc m w1 = (Inr (), w2)"
    and "predict svc sentence [] (languageCode m) w2 = (Inl err, w3)"
  shows "post_predict svc req s =
      (\<lparr>res_status = 404,
        res_body = JObj [(''success'', JBool False), (''error'', JStr (message err))]\<rparr>,
       \<lparr>world = w3,
        calls = calls s @ [GetModel modelId password, LoadModel m,
                           Predict sentence [] (languageCode m)]\<rparr>)
    \<and> (\<forall>language. UnloadModel language
          \<notin> set (drop (length (calls s)) (calls (snd (post_predict svc req s)))))"
  using assms by (simp add: post_predict_eq Let_def failure_def)

theorem predict_throw_skips_unload_witness:
  "post_predict demo_services (predict_request []) demo_start =
     (\<lparr>res_status = 404,
       res_body = JObj [(''success'', JBool False), (''error'', JStr ''sentence is required'')]\<rparr>,
      \<lparr>world = (world demo_start)\<lparr>loaded := [JStr ''en'']\<rparr>,
       calls = [GetModel ''stored'' (JStr []), LoadModel demo_model,
                Predict JUndefined [] (JStr ''en'')]\<rparr>)
   \<and> loaded (world demo_start) = []
   \<and> loaded (world (snd (post_predict demo_services (predict_request []) demo_start)))
       = [JStr ''en'']"
proof -
  have found: "getModel demo_services ''stored'' (JStr []) (world demo_start)
      = (Inr (Some demo_model), world demo_start)"
    by (simp add: demo_services_def demo_start_def)
  have load: "loadModel demo_services demo_model (world demo_start)
      = (Inr (), (world demo_start)\<lparr>loaded := [JStr ''en'']\<rparr>)"
    by (simp add: demo_services_def demo_start_def demo_model_def)
  have thrown: "predict demo_services JUndefined [] (languageCode demo_model)
        ((world demo_start)\<lparr>loaded := [JStr ''en'']\<rparr>)
      = (Inl (Error ''sentence is required''), (world demo_start)\<lparr>loaded := [JStr ''en'']\<rparr>)"
    by (simp add: demo_services_def demo_model_def)
  have "post_predict demo_services (predict_request []) demo_start =
     (\<lparr>res_status = 404,
       res_body = JObj [(''success'', JBool False), (''error'', JStr ''sentence is required'')]\<rparr>,
      \<lparr>world = (world demo_start)\<lparr>loaded := [JStr ''en'']\<rparr>,
       calls = [GetModel ''stored'' (JStr []), LoadModel demo_model,
                Predict JUndefined [] (JStr ''en'')]\<rparr>)"
    using predict_throw_skips_unload [of "''stored''" "predict_request []" JUndefined "JStr []"
        demo_services demo_start demo_model "world demo_start"
        "(world demo_start)\<lparr>loaded := [JStr ''en'']\<rparr>" "Error ''sentence is required''"
        "(world demo_start)\<lparr>loaded := [JStr ''en'']\<rparr>"]
      found load thrown
    by (simp add: predict_request_def field_def demo_model_def demo_start_def)
  then show ?thesis by (simp add: demo_start_def)
qed

text \<open>
  C3. \<open>GET /train/:modelId\<close>: when \<open>getTrainingSession\<close> returns a session (an
  object, and so a truthy value), the handler answers \<open>{success: true, session}\<close>
  with that session and does not look for a model. When it returns no session (a falsy
  value) and \<open>getModel\<close> returns a model, the handler answers with a session of
  status \<open>done\<close>, progress 1 and the model's \<open>languageCode\<close> as language. When
  there is neither, it answers status 404 with \<open>{success: false, error}\<close>.
\<close>

theorem get_train_outcomes:
  assumes "modelId = req_modelId req"
    and "password = nullish (field ''password'' (req_body req)) (JStr [])"
  shows
  "(getTrainingSession svc modelId (world s) = (Inr session, w1) \<and> truthy session \<longrightarrow>
    get_train svc req s =
      (\<lparr>res_status = 200, res_body = JObj [(''success'', JBool True), (''session'', session)]\<rparr>,
       \<lparr>world = w1, calls = calls s @ [GetTrainingSession modelId]\<rparr>))
   \<and> (getTrainingSession svc modelId (world s) = (Inr session, w1) \<and> \<not> truthy session
      \<and> getModel svc modelId password w1 = (Inr (Some m), w2) \<longrightarrow>
    get_train svc req s =
      (\<lparr>res_status = 200,
        res_body = JObj [(''success'', JBool True),
                         (''session'', JObj [(''status'', JStr ''done''),
                                             (''progress'', JNum (Finite 1)),
                                             (''language'', languageCode m)])]\<rparr>,
       \<lparr>world = w2,
        calls = calls s @ [GetTrainingSession modelId, GetModel modelId password]\<rparr>))
   \<and> (getTrainingSession svc modelId (world s) = (Inr session, w1) \<and> \<not> truthy session
      \<and> getModel svc modelId password w1 = (Inr None, w2) \<longrightarrow>
    get_train svc req s =
      (\<lparr>res_status = 404,
        res_body = JObj [(''success'', JBool False),
                         (''error'', JStr (''no model or training could be found for modelId: ''
                                           @ modelId))]\<rparr>,
       \<lparr>world = w2,
        calls = calls s @ [GetTrainingSession modelId, GetModel modelId password]\<rparr>))"
  using assms by (simp add: get_train_eq)

theorem get_train_outcomes_witness:
  "get_train demo_services \<lparr>req_modelId = ''live'', req_body = []\<rparr> demo_start =
     (\<lparr>res_status = 200,
       res_body = JObj [(''success'', JBool True),
                        (''session'', JObj [(''status'', JStr ''training'')])]\<rparr>,
      \<lparr>world = world demo_start, calls = [GetTrainingSession ''live'']\<rparr>)
   \<and> get_train demo_services \<lparr>req_modelId = ''stored'', req_body = []\<rparr> demo_start =
     (\<lparr>res_status = 200,
       res_body = JObj [(''success'', JBool True),
                        (''session'', JObj [(''status'', JStr ''done''),
                                            (''progress'', JNum (Finite 1)),
                                            (''language'', JStr ''en'')])]\<rparr>,
      \<lparr>world = world demo_start,
       calls = [GetTrainingSession ''stored'', GetModel ''stored'' (JStr [])]\<rparr>)
   \<and> get_train demo_services \<lparr>req_modelId = ''lost'', req_body = []\<rparr> demo_start =
     (\<lparr>res_status = 404,
       res_body = JObj [(''success'', JBool False),
                        (''error'', JStr ''no model or training could be found for modelId: lost'')]\<rparr>,
      \<lparr>world = world demo_start,
       calls = [GetTrainingSession ''lost'', GetModel ''lost'' (JStr [])]\<rparr>)
   \<and> getTrainingSession demo_services ''gone'' (world demo_start) = (Inr JNull, world demo_start)
   \<and> get_train demo_services \<lparr>req_modelId = ''gone'', req_body = []\<rparr> demo_start =
     (\<lparr>res_status = 404,
       res_body = JObj [(''success'', JBool False),
                        (''error'', JStr ''no model or training could be found for modelId: gone'')]\<rparr>,
      \<lparr>world = world demo_start,
       calls = [GetTrainingSession ''gone'', GetModel ''gone'' (JStr [])]\<rparr>)"
proof -
  have a: "get_train demo_services \<lparr>req_modelId = ''live'', req_body = []\<rparr> demo_start =
     (\<lparr>res_status = 200,
       res_body = JObj [(''success'', JBool True),
                        (''session'', JObj [(''status'', JStr ''training'')])]\<rparr>,
      \<lparr>world = world demo_start, calls = [GetTrainingSession ''live'']\<rparr>)"
    using get_train_outcomes [of "''live''" "\<lparr>req_modelId = ''live'', req_body = []\<rparr>" "JStr []"
        demo_services demo_start "JObj [(''status'', JStr ''training'')]" "world demo_start"]
    by (simp add: field_def demo_services_def demo_start_def)
  have b: "get_train demo_services \<lparr>req_modelId = ''stored'', req_body = []\<rparr> demo_start =
     (\<lparr>res_status = 200,
       res_body = JObj [(''success'', JBool True),
                        (''session'', JObj [(''status'', JStr ''done''),
                                            (''progress'', JNum (Finite 1)),
                                            (''language'', JStr ''en'')])]\<rparr>,
      \<lparr>world = world demo_start,
       calls = [GetTrainingSession ''stored'', GetModel ''stored'' (JStr [])]\<rparr>)"
    using get_train_outcomes [of "''stored''" "\<lparr>req_modelId = ''stored'', req_body = []\<rparr>" "JStr []"
        demo_services demo_start JUndefined "world demo_start" demo_model "world demo_start"]
    by (simp add: field_def demo_services_def demo_start_def demo_model_def)
  have c: "get_train demo_services \<lparr>req_modelId = ''lost'', req_body = []\<rparr> demo_start =
     (\<lparr>res_status = 404,
       res_body = JObj [(''success'', JBool False),
                        (''error'', JStr ''no model or training could be found for modelId: lost'')]\<rparr>,
      \<lparr>world = world demo_start,
       calls = [GetTrainingSession ''lost'', GetModel ''lost'' (JStr [])]\<rparr>)"
    using get_train_outcomes [of "''lost''" "\<lparr>req_modelId = ''lost'', req_body = []\<rparr>" "JStr []"
        demo_services demo_start JUndefined "world demo_start" _ "world demo_start"]
    by (simp add: field_def demo_services_def demo_start_def)
  have g: "getTrainingSession demo_services ''gone'' (world demo_start) = (Inr JNull, world demo_start)"
    by (simp add: field_def demo_services_def demo_start_def)
  have d: "get_train demo_services \<lparr>req_modelId = ''gone'', req_body = []\<rparr> demo_start =
     (\<lparr>res_status = 404,
       res_body = JObj [(''success'', JBool False),
                        (''error'', JStr ''no model or training could be found for modelId: gone'')]\<rparr>,
      \<lparr>world = world demo_start,
       calls = [GetTrainingSession ''gone'', GetModel ''gone'' (JStr [])]\<rparr>)"
    using get_train_outcomes [of "''gone''" "\<lparr>req_modelId = ''gone'', req_body = []\<rparr>" "JStr []"
        demo_services demo_start JNull "world demo_start" _ "world demo_start"] g
    by (simp add: field_def demo_services_def demo_start_def)
  from a b c g d show ?thesis by blast
qed

text \<open>
  C4. \<open>POST /train\<close>: when the body validates, neither \<open>computeModelHash\<close> nor
  \<open>makeModelId\<close> throws and the call of \<open>trainService.train\<close> returns its
  promise, the handler answers status 200 with \<open>{success: true, modelId}\<close>,
  whatever that promise settles as: nothing waits for it. When validation fails, or
  \<open>computeModelHash\<close>, \<open>makeModelId\<close> or the call of \<open>train\<close> itself
  throws, it answers status 500 (not 400) with \<open>{success: false, error}\<close> holding
  the error's message.
\<close>

theorem post_train_outcomes:
  assumes "intents = flatMap (map snd (input_topics input))"
  shows
  "(validate svc (req_body req) = Inr input
      \<and> computeModelHash svc intents (input_entities input) (input_language input) = Inr modelHash
      \<and> makeModelId svc modelHash (input_language input) (input_seed input) = Inr modelId
      \<and> train svc modelId (input_password input) intents (input_entities input)
            (input_language input) (world s) = (Inr (Promise settles), w1) \<longrightarrow>
    post_train svc req s =
      (\<lparr>res_status = 200, res_body = JObj [(''success'', JBool True), (''modelId'', modelId)]\<rparr>,
       \<lparr>world = w1,
        calls = calls s @ [Train modelId (input_password input) intents (input_entities input)
                             (input_language input)]\<rparr>))
   \<and> (validate svc (req_body req) = Inl err \<longrightarrow>
    post_train svc req s =
      (\<lparr>res_status = 500,
        res_body = JObj [(''success'', JBool False), (''error'', JStr (message err))]\<rparr>, s))
   \<and> (validate svc (req_body req) = Inr input
      \<and> computeModelHash svc intents (input_entities input) (input_language input) = Inl err \<longrightarrow>
    post_train svc req s =
      (\<lparr>res_status = 500,
        res_body = JObj [(''success'', JBool False), (''error'', JStr (message err))]\<rparr>, s))
   \<and> (validate svc (req_body req) = Inr input
      \<and> computeModelHash svc intents (input_entities input) (input_language input) = Inr modelHash
      \<and> makeModelId svc modelHash (input_language input) (input_seed input) = Inl err \<longrightarrow>
    post_train svc req s =
      (\<lparr>res_status = 500,
        res_body = JObj [(''success'', JBool False), (''error'', JStr (message err))]\<rparr>, s))
   \<and> (validate svc (req_body req) = Inr input
      \<and> computeModelHash svc intents (input_entities input) (input_language input) = Inr modelHash
      \<and> makeModelId svc modelHash (input_language input) (input_seed input) = Inr modelId
      \<and> train svc modelId (input_password input) intents (input_entities input)
            (input_language input) (world s) = (Inl err, w1) \<longrightarrow>
    post_train svc req s =
      (\<lparr>res_status = 500,
        res_body = JObj [(''success'', JBool False), (''error'', JStr (message err))]\<rparr>,
       \<lparr>world = w1,
        calls = calls s @ [Train modelId (input_password input) intents (input_entities input)
                             (input_language input)]\<rparr>))"
  using assms by (simp add: post_train_eq)

theorem post_train_outcomes_witness:
  "post_train demo_services (train_request 1) demo_start =
     (\<lparr>res_status = 200,
       res_body = JObj [(''success'', JBool True),
                        (''modelId'',
                         JObj [(''hash'', JArr [JArr [JStr ''greet'', JStr ''bye''], JArr [], JStr ''en'']),
                               (''languageCode'', JStr ''en'')])]\<rparr>,
      \<lparr>world = (world demo_start)
         \<lparr>started := [JObj [(''hash'', JArr [JArr [JStr ''greet'', JStr ''bye''], JArr [], JStr ''en'']),
                            (''languageCode'', JStr ''en'')]]\<rparr>,
       calls = [Train (JObj [(''hash'', JArr [JArr [JStr ''greet'', JStr ''bye''], JArr [], JStr ''en'']),
                             (''languageCode'', JStr ''en'')])
                  JUndefined [JStr ''greet'', JStr ''bye''] (JArr []) (JStr ''en'')]\<rparr>)
   \<and> fst (post_train (demo_services\<lparr>train := \<lambda>modelId password intents entities language w.
                                       (Inr (Promise (Inl (Error ''training failed''))), w)\<rparr>)
             (train_request 1) demo_start) =
       \<lparr>res_status = 200,
        res_body = JObj [(''success'', JBool True),
                         (''modelId'',
                          JObj [(''hash'', JArr [JArr [JStr ''greet'', JStr ''bye''], JArr [], JStr ''en'']),
                                (''languageCode'', JStr ''en'')])]\<rparr>
   \<and> post_train demo_services \<lparr>req_modelId = [], req_body = []\<rparr> demo_start =
       (\<lparr>res_status = 500,
         res_body = JObj [(''success'', JBool False), (''error'', JStr ''language is required'')]\<rparr>,
        demo_start)
   \<and> post_train (demo_services\<lparr>computeModelHash := \<lambda>intents entities language.
                                   Inl (Error ''no hash'')\<rparr>) (train_request 1) demo_start =
       (\<lparr>res_status = 500,
         res_body = JObj [(''success'', JBool False), (''error'', JStr ''no hash'')]\<rparr>,
        demo_start)
   \<and> post_train (demo_services\<lparr>makeModelId := \<lambda>modelHash language seed.
                                   Inl (Error ''no id'')\<rparr>) (train_request 1) demo_start =
       (\<lparr>res_status = 500,
         res_body = JObj [(''success'', JBool False), (''error'', JStr ''no id'')]\<rparr>,
        demo_start)
   \<and> fst (post_train (demo_services\<lparr>train := \<lambda>modelId password intents entities language w.
                                       (Inl (Error ''no trainer''), w)\<rparr>)
             (train_request 1) demo_start) =
       \<lparr>res_status = 500,
        res_body = JObj [(''success'', JBool False), (''error'', JStr ''no trainer'')]\<rparr>"
proof -
  let ?input = "\<lparr>input_topics = [(''global'', JArr [JStr ''greet'', JStr ''bye''])],
                  input_entities = JArr [], input_language = JStr ''en'',
                  input_password = JUndefined, input_seed = JNum (Finite 1)\<rparr>"
  let ?hash = "JArr [JArr [JStr ''greet'', JStr ''bye''], JArr [], JStr ''en'']"
  let ?id = "JObj [(''hash'', ?hash), (''languageCode'', JStr ''en'')]"
  let ?rejecting = "demo_services\<lparr>train := \<lambda>modelId password intents entities language w.
                                       (Inr (Promise (Inl (Error ''training failed''))), w)\<rparr>"
  let ?throwing = "demo_services\<lparr>train := \<lambda>modelId password intents entities language w.
                                       (Inl (Error ''no trainer''), w)\<rparr>"
  have valid: "demo_validate (req_body (train_request 1)) = Inr ?input"
    by (simp add: demo_validate_def train_request_def field_def)
  have invalid: "demo_validate [] = Inl (Error ''language is required'')"
    by (simp add: demo_validate_def field_def)
  have a: "post_train demo_services (train_request 1) demo_start =
     (\<lparr>res_status = 200, res_body = JObj [(''success'', JBool True), (''modelId'', ?id)]\<rparr>,
      \<lparr>world = (world demo_start)\<lparr>started := [?id]\<rparr>,
       calls = [Train ?id JUndefined [JStr ''greet'', JStr ''bye''] (JArr []) (JStr ''en'')]\<rparr>)"
    using post_train_outcomes [of "[JStr ''greet'', JStr ''bye'']" ?input demo_services
        "train_request 1" ?hash ?id demo_start "Inr ()"
        "(world demo_start)\<lparr>started := [?id]\<rparr>"] valid
    by (simp add: demo_services_def demo_computeModelHash_def demo_makeModelId_def demo_start_def)
  have a': "fst (post_train ?rejecting (train_request 1) demo_start) =
       \<lparr>res_status = 200, res_body = JObj [(''success'', JBool True), (''modelId'', ?id)]\<rparr>"
    using post_train_outcomes [of "[JStr ''greet'', JStr ''bye'']" ?input ?rejecting
        "train_request 1" ?hash ?id demo_start "Inl (Error ''training failed'')"
        "world demo_start"] valid
    by (simp add: demo_services_def demo_computeModelHash_def demo_makeModelId_def)
  have b: "post_train demo_services \<lparr>req_modelId = [], req_body = []\<rparr> demo_start =
       (\<lparr>res_status = 500,
         res_body = JObj [(''success'', JBool False), (''error'', JStr ''language is required'')]\<rparr>,
        demo_start)"
    using post_train_outcomes [of "[]" "\<lparr>input_topics = [], input_entities = JNull,
        input_language = JNull, input_password = JNull, input_seed = JNull\<rparr>" demo_services
        "\<lparr>req_modelId = [], req_body = []\<rparr>" _ _ demo_start _ _ "Error ''language is required''"]
      invalid
    by (simp add: demo_services_def)
  have c: "post_train (demo_services\<lparr>computeModelHash := \<lambda>intents entities language.
                                   Inl (Error ''no hash'')\<rparr>) (train_request 1) demo_start =
       (\<lparr>res_status = 500,
         res_body = JObj [(''success'', JBool False), (''error'', JStr ''no hash'')]\<rparr>,
        demo_start)"
    using post_train_outcomes [of "[JStr ''greet'', JStr ''bye'']" ?input
        "demo_services\<lparr>computeModelHash := \<lambda>intents entities language. Inl (Error ''no hash'')\<rparr>"
        "train_request 1" _ _ demo_start _ _ "Error ''no hash''"] valid
    by (simp add: demo_services_def)
  have d: "post_train (demo_services\<lparr>makeModelId := \<lambda>modelHash language seed.
                                   Inl (Error ''no id'')\<rparr>) (train_request 1) demo_start =
       (\<lparr>res_status = 500,
         res_body = JObj [(''success'', JBool False), (''error'', JStr ''no id'')]\<rparr>,
        demo_start)"
    using post_train_outcomes [of "[JStr ''greet'', JStr ''bye'']" ?input
        "demo_services\<lparr>makeModelId := \<lambda>modelHash language seed. Inl (Error ''no id'')\<rparr>"
        "train_request 1" ?hash _ demo_start _ _ "Error ''no id''"] valid
    by (simp add: demo_services_def demo_computeModelHash_def)
  have e: "fst (post_train ?throwing (train_request 1) demo_start) =
       \<lparr>res_status = 500,
        res_body = JObj [(''success'', JBool False), (''error'', JStr ''no trainer'')]\<rparr>"
    using post_train_outcomes [of "[JStr ''greet'', JStr ''bye'']" ?input ?throwing
        "train_request 1" ?hash ?id demo_start _ "world demo_start" "Error ''no trainer''"] valid
    by (simp add: demo_services_def demo_computeModelHash_def demo_makeModelId_def)
  from a a' b c d e show ?thesis by blast
qed

section \<open>The training button\<close>

text \<open>
  What holds on every run. After \<open>trainNow\<close> the widget is training and shows the
  button that cancels the training; that button is disabled exactly when
  \<open>cancelling\<close> was set before. After any further steps, a status event of the NLU
  module (type \<open>nlu\<close>) whose training session has status \<open>done\<close> or
  \<open>canceled\<close> resets \<open>training\<close> and \<open>cancelling\<close> to their initial
  values, and the widget shows the button that starts a training.
\<close>

lemma trainNow_then_status_event:
  "training (trainNow w)
   \<and> button_onClick (view autoTrain (trainNow w)) = OnCancelTraining
   \<and> button_label (view autoTrain (trainNow w)) = ''module.nlu.cancelTraining''
   \<and> button_disabled (view autoTrain (trainNow w)) = cancelling w
   \<and> (event_type e = ''nlu'' \<and> session_status (event_trainSession e) \<in> {''done'', ''canceled''} \<longrightarrow>
        \<not> training (run w (TrainNow # steps @ [StatusbarEvent e]))
        \<and> \<not> cancelling (run w (TrainNow # steps @ [StatusbarEvent e]))
        \<and> training (run w (TrainNow # steps @ [StatusbarEvent e])) = training initial
        \<and> cancelling (run w (TrainNow # steps @ [StatusbarEvent e])) = cancelling initial
        \<and> button_onClick (view autoTrain (run w (TrainNow # steps @ [StatusbarEvent e]))) = OnTrainNow
        \<and> \<not> button_disabled (view autoTrain (run w (TrainNow # steps @ [StatusbarEvent e]))))"
proof -
  have "run w (TrainNow # steps @ [StatusbarEvent e])
      = on_statusbar_event e (run (trainNow w) steps)"
    by (simp add: run_def)
  then show ?thesis
    by (auto simp: on_statusbar_event_resets trainNow_def view_def initial_def)
qed

text \<open>
  C9. After \<open>train()\<close> the widget should be training and show the cancel control in
  a state that can cancel, and a \<open>done\<close> or \<open>canceled\<close> status event should
  bring it back to the initial state. The code sets \<open>cancelling\<close> only when
  \<open>api.cancelTraining\<close> has answered, and never looks whether the training is
  still on. On the run \<open>late_answer_run\<close> the \<open>canceled\<close> event comes before
  that answer: the event resets both flags, the answer sets \<open>cancelling\<close> again
  while the widget shows the enabled button that starts a training, and after the next
  \<open>train()\<close> the cancel control is disabled.
\<close>

theorem cancel_control_disabled_after_late_answer:
  "view autoTrain (run initial (take 3 late_answer_run)) =
     \<lparr>button_disabled = False, button_loading = False, button_onClick = OnCancelTraining,
      button_label = ''module.nlu.cancelTraining''\<rparr>
   \<and> \<not> training (run initial (take 5 late_answer_run))
   \<and> \<not> cancelling (run initial (take 5 late_answer_run))
   \<and> cancelling (run initial (take 6 late_answer_run))
   \<and> button_onClick (view autoTrain (run initial (take 6 late_answer_run))) = OnTrainNow
   \<and> \<not> button_disabled (view autoTrain (run initial (take 6 late_answer_run)))
   \<and> \<not> button_loading (view autoTrain (run initial (take 6 late_answer_run)))
   \<and> training (run initial late_answer_run)
   \<and> view autoTrain (run initial late_answer_run) =
     \<lparr>button_disabled = True, button_loading = False, button_onClick = OnCancelTraining,
      button_label = ''module.nlu.cancelTraining''\<rparr>"
  by (simp add: late_answer_run_def run_def initial_def nlu_event_def view_def fetchIsTraining_def
        fetchIsTraining_resumed_def trainNow_def cancelTraining_def cancelTraining_resumed_def
        on_statusbar_event_def isDoneOrCancelled_def)

end
